theory Spec2Isabelle
  imports Main "HOL-Library.Word"
begin

section \<open>The cache assembler of pkg/chunk/cache/cache.go\<close>

text \<open>
  The file \<^verbatim>\<open>cache.go\<close> declares the \<^verbatim>\<open>Cache\<close> interface, the \<^verbatim>\<open>Config\<close> struct,
  \<^verbatim>\<open>Config.RegisterFlagsWithPrefix\<close> and the assembler \<^verbatim>\<open>New\<close>. The backend
  configurations and the constructors \<^verbatim>\<open>New\<close> calls live in other files of the
  package.
\<close>

subsection \<open>Data model\<close>

text \<open>\<^verbatim>\<open>time.Duration\<close> is an \<^verbatim>\<open>int64\<close>; the assembler only compares it with zero.\<close>

type_synonym Duration = "64 word"

text \<open>
  Modelled from the spec: the five backend configuration structs are declared outside
  \<^verbatim>\<open>cache.go\<close>. Each record has the fields \<^verbatim>\<open>New\<close> reads or writes
  (\<^verbatim>\<open>Fifocache.Validity\<close>, \<^verbatim>\<open>Memcache.Expiration\<close>, \<^verbatim>\<open>MemcacheClient.Host\<close>,
  \<^verbatim>\<open>Redis.Endpoint\<close>, \<^verbatim>\<open>Redis.Expiration\<close>), and otherwise what the spec's data model
  names: queue size and worker concurrency of the background writer, capacity of the
  local cache.
\<close>

record BackgroundConfig =
  WriteBackGoroutines :: int
  WriteBackBuffer :: int

record MemcachedConfig =
  Expiration :: Duration

record MemcachedClientConfig =
  Host :: string

record RedisConfig =
  Endpoint :: string
  Expiration :: Duration

record FifoCacheConfig =
  Size :: int
  Validity :: Duration

text \<open>
  The constructors \<^verbatim>\<open>NewFifoCache\<close>, \<^verbatim>\<open>NewMemcachedClient\<close>, \<^verbatim>\<open>NewMemcached\<close>,
  \<^verbatim>\<open>NewRedisCache\<close>, \<^verbatim>\<open>Instrument\<close>, \<^verbatim>\<open>NewBackground\<close> and \<^verbatim>\<open>NewTiered\<close> are
  declared outside \<^verbatim>\<open>cache.go\<close>. They are left uninterpreted: a value of the interface
  \<^verbatim>\<open>Cache\<close> is the constructor call that built it, with the arguments \<^verbatim>\<open>New\<close> passed,
  in the argument order of the call site. \<open>Injected\<close> stands for an implementation
  that comes from outside the package (the test seam \<^verbatim>\<open>Config.Cache\<close>).
\<close>

datatype MemcachedClient = NewMemcachedClient MemcachedClientConfig

datatype RedisPool = RedisPool nat

datatype Cache =
    Injected nat
  | NewFifoCache string FifoCacheConfig
  | NewMemcached MemcachedConfig MemcachedClient string
  | NewRedisCache RedisConfig string "RedisPool option"
  | Instrument string Cache
  | NewBackground string BackgroundConfig Cache
  | NewTiered "Cache list"

text \<open>The struct \<^verbatim>\<open>Config\<close>; a nil interface value in the field \<^verbatim>\<open>Cache\<close> is \<open>None\<close>.\<close>

record Config =
  EnableFifoCache :: bool
  DefaultValidity :: Duration
  Background :: BackgroundConfig
  Memcache :: MemcachedConfig
  MemcacheClient :: MemcachedClientConfig
  Redis :: RedisConfig
  Fifocache :: FifoCacheConfig
  Prefix :: string
  Cache :: "Cache option"

text \<open>\<^verbatim>\<open>errors.New(msg)\<close>: an error value that carries its message.\<close>

datatype error = errors_New string

subsection \<open>The assembler \<^verbatim>\<open>New\<close>\<close>

text \<open>
  \<^verbatim>\<open>New\<close> receives \<^verbatim>\<open>cfg\<close> by value and updates its copy while it appends to the
  local slice \<^verbatim>\<open>caches\<close>. The state threaded through the three blocks is the pair
  of both.
\<close>

type_synonym assembly = "Config \<times> Cache list"

text \<open>Lines 64 to 71: the local tier.\<close>

definition fifo_block :: "assembly \<Rightarrow> assembly" where
  "fifo_block s =
     (let (cfg, caches) = s in
      if EnableFifoCache cfg then
        let cfg = (if Validity (Fifocache cfg) = 0 \<and> DefaultValidity cfg \<noteq> 0
                   then cfg\<lparr>Fifocache := (Fifocache cfg)\<lparr>Validity := DefaultValidity cfg\<rparr>\<rparr>
                   else cfg);
            cache = NewFifoCache (Prefix cfg @ ''fifocache'') (Fifocache cfg)
        in (cfg, caches @ [Instrument (Prefix cfg @ ''fifocache'') cache])
      else (cfg, caches))"

text \<open>Lines 77 to 87: the memcached tier.\<close>

definition memcache_block :: "assembly \<Rightarrow> assembly" where
  "memcache_block s =
     (let (cfg, caches) = s in
      if Host (MemcacheClient cfg) \<noteq> [] then
        let cfg = (if MemcachedConfig.Expiration (Memcache cfg) = 0 \<and> DefaultValidity cfg \<noteq> 0
                   then cfg\<lparr>Memcache :=
                          (Memcache cfg)\<lparr>MemcachedConfig.Expiration := DefaultValidity cfg\<rparr>\<rparr>
                   else cfg);
            client = NewMemcachedClient (MemcacheClient cfg);
            cache = NewMemcached (Memcache cfg) client (Prefix cfg);
            cacheName = Prefix cfg @ ''memcache''
        in (cfg, caches @ [NewBackground cacheName (Background cfg) (Instrument cacheName cache)])
      else (cfg, caches))"

text \<open>Lines 89 to 96: the redis tier.\<close>

definition redis_block :: "assembly \<Rightarrow> assembly" where
  "redis_block s =
     (let (cfg, caches) = s in
      if Endpoint (Redis cfg) \<noteq> [] then
        let cfg = (if RedisConfig.Expiration (Redis cfg) = 0 \<and> DefaultValidity cfg \<noteq> 0
                   then cfg\<lparr>Redis :=
                          (Redis cfg)\<lparr>RedisConfig.Expiration := DefaultValidity cfg\<rparr>\<rparr>
                   else cfg);
            cacheName = Prefix cfg @ ''redis'';
            cache = NewRedisCache (Redis cfg) cacheName None
        in (cfg, caches @ [NewBackground cacheName (Background cfg) (Instrument cacheName cache)])
      else (cfg, caches))"

text \<open>
  Lines 62 to 96: the tier list \<^verbatim>\<open>caches\<close> as it stands before line 98, or the error
  of line 74 that leaves \<^verbatim>\<open>New\<close> between the local and the remote blocks.
\<close>

definition assemble :: "Config \<Rightarrow> error + assembly" where
  "assemble cfg =
     (let s = fifo_block (cfg, []) in
      if Host (MemcacheClient (fst s)) \<noteq> [] \<and> Endpoint (Redis (fst s)) \<noteq> []
      then Inl (errors_New ''use of multiple cache storage systems is not supported'')
      else Inr (redis_block (memcache_block s)))"

text \<open>
  \<^verbatim>\<open>New\<close> returns the Go pair \<^verbatim>\<open>(Cache, error)\<close>; each component is \<open>None\<close> where Go
  returns nil.
\<close>

definition New :: "Config \<Rightarrow> Cache option \<times> error option" where
  "New cfg =
     (case Cache cfg of
        Some c \<Rightarrow> (Some c, None)
      | None \<Rightarrow>
          (case assemble cfg of
             Inl err \<Rightarrow> (None, Some err)
           | Inr (cfg', caches) \<Rightarrow>
               let cache = NewTiered caches;
                   cache = (if 1 < length caches
                            then Instrument (Prefix cfg' @ ''tiered'') cache
                            else cache)
               in (Some cache, None)))"

subsection \<open>\<^verbatim>\<open>Config.RegisterFlagsWithPrefix\<close>\<close>

text \<open>
  Registering a flag panics in Go when the flag set rejects the name (a name that is
  already defined, for one), and the panic leaves \<^verbatim>\<open>RegisterFlagsWithPrefix\<close>
  before the statements that follow.
\<close>

datatype panic = Panic string

definition and_then :: "panic + 'a \<Rightarrow> ('a \<Rightarrow> panic + 'b) \<Rightarrow> panic + 'b" where
  "and_then r k = (case r of Inl p \<Rightarrow> Inl p | Inr x \<Rightarrow> k x)"

text \<open>
  The five \<^verbatim>\<open>RegisterFlagsWithPrefix\<close> methods of the backend configurations are
  declared outside \<^verbatim>\<open>cache.go\<close>, and \<^verbatim>\<open>BoolVar\<close> and \<^verbatim>\<open>DurationVar\<close> belong to
  \<^verbatim>\<open>flag.FlagSet\<close> of the standard library. They are parameters. Each receives a
  pointer and the flag set \<open>'f\<close>: it gets what the pointer refers to and the flag set,
  and returns both as it leaves them, or panics. The two registrations of the standard
  library also get the flag's name, default value and usage text.
\<close>

record 'f externals =
  Background_RegisterFlagsWithPrefix ::
    "string \<Rightarrow> string \<Rightarrow> BackgroundConfig \<times> 'f \<Rightarrow> panic + BackgroundConfig \<times> 'f"
  Memcache_RegisterFlagsWithPrefix ::
    "string \<Rightarrow> string \<Rightarrow> MemcachedConfig \<times> 'f \<Rightarrow> panic + MemcachedConfig \<times> 'f"
  MemcacheClient_RegisterFlagsWithPrefix ::
    "string \<Rightarrow> string \<Rightarrow> MemcachedClientConfig \<times> 'f \<Rightarrow> panic + MemcachedClientConfig \<times> 'f"
  Redis_RegisterFlagsWithPrefix ::
    "string \<Rightarrow> string \<Rightarrow> RedisConfig \<times> 'f \<Rightarrow> panic + RedisConfig \<times> 'f"
  Fifocache_RegisterFlagsWithPrefix ::
    "string \<Rightarrow> string \<Rightarrow> FifoCacheConfig \<times> 'f \<Rightarrow> panic + FifoCacheConfig \<times> 'f"
  BoolVar :: "bool \<times> 'f \<Rightarrow> string \<Rightarrow> bool \<Rightarrow> string \<Rightarrow> panic + bool \<times> 'f"
  DurationVar :: "Duration \<times> 'f \<Rightarrow> string \<Rightarrow> Duration \<Rightarrow> string \<Rightarrow> panic + Duration \<times> 'f"

text \<open>Lines 43 to 54. The receiver \<^verbatim>\<open>cfg\<close> is a pointer: the updated struct is returned.\<close>

definition RegisterFlagsWithPrefix ::
  "'f externals \<Rightarrow> string \<Rightarrow> string \<Rightarrow> Config \<times> 'f \<Rightarrow> panic + Config \<times> 'f" where
  "RegisterFlagsWithPrefix X prefix description s =
     (let (cfg, f) = s in
      and_then (Background_RegisterFlagsWithPrefix X prefix description (Background cfg, f))
        (\<lambda>(bg, f). let cfg = cfg\<lparr>Background := bg\<rparr> in
      and_then (Memcache_RegisterFlagsWithPrefix X prefix description (Memcache cfg, f))
        (\<lambda>(mc, f). let cfg = cfg\<lparr>Memcache := mc\<rparr> in
      and_then (MemcacheClient_RegisterFlagsWithPrefix X prefix description (MemcacheClient cfg, f))
        (\<lambda>(cl, f). let cfg = cfg\<lparr>MemcacheClient := cl\<rparr> in
      and_then (Redis_RegisterFlagsWithPrefix X prefix description (Redis cfg, f))
        (\<lambda>(rd, f). let cfg = cfg\<lparr>Redis := rd\<rparr> in
      and_then (Fifocache_RegisterFlagsWithPrefix X prefix description (Fifocache cfg, f))
        (\<lambda>(fc, f). let cfg = cfg\<lparr>Fifocache := fc\<rparr> in
      and_then (BoolVar X (EnableFifoCache cfg, f) (prefix @ ''cache.enable-fifocache'') False
                  (description @ ''Enable in-memory cache.''))
        (\<lambda>(b, f). let cfg = cfg\<lparr>EnableFifoCache := b\<rparr> in
      and_then (DurationVar X (DefaultValidity cfg, f) (prefix @ ''default-validity'') 0
                  (description @
                     ''The default validity of entries for caches unless overridden.''))
        (\<lambda>(d, f). let cfg = cfg\<lparr>DefaultValidity := d\<rparr> in
      Inr (cfg\<lparr>Prefix := prefix\<rparr>, f)))))))))"

subsection \<open>Reading an assembled cache\<close>

text \<open>
  Spec, sections 3 and 4.2: a backend's validity is "its own value, else
  \<^verbatim>\<open>defaultValidity\<close>", the default standing in for the zero value only.
\<close>

definition resolved :: "Duration \<Rightarrow> Duration \<Rightarrow> Duration" where
  "resolved own dflt = (if own = 0 then dflt else own)"

text \<open>The backends of a cache: what is left under the decorators and the composite.\<close>

fun backends :: "Cache \<Rightarrow> Cache list" where
  "backends (Instrument name c) = backends c"
| "backends (NewBackground name bg c) = backends c"
| "backends (NewTiered cs) = concat (map backends cs)"
| "backends c = [c]"

text \<open>The validity or expiration a backend was constructed with.\<close>

fun constructed_validity :: "Cache \<Rightarrow> Duration option" where
  "constructed_validity (NewFifoCache name fc) = Some (Validity fc)"
| "constructed_validity (NewMemcached mc client name) = Some (MemcachedConfig.Expiration mc)"
| "constructed_validity (NewRedisCache rc name pool) = Some (RedisConfig.Expiration rc)"
| "constructed_validity c = None"

text \<open>The validity or expiration the configuration holds for a backend of that kind.\<close>

fun configured_validity :: "Config \<Rightarrow> Cache \<Rightarrow> Duration option" where
  "configured_validity cfg (NewFifoCache name fc) = Some (Validity (Fifocache cfg))"
| "configured_validity cfg (NewMemcached mc client name) =
     Some (MemcachedConfig.Expiration (Memcache cfg))"
| "configured_validity cfg (NewRedisCache rc name pool) =
     Some (RedisConfig.Expiration (Redis cfg))"
| "configured_validity cfg c = None"

text \<open>The kinds of backend, and the kind of the backend a tier is built on.\<close>

datatype kind = Fifo | Memcached | RedisKind

fun backend_kind :: "Cache \<Rightarrow> kind option" where
  "backend_kind (NewFifoCache name fc) = Some Fifo"
| "backend_kind (NewMemcached mc client name) = Some Memcached"
| "backend_kind (NewRedisCache rc name pool) = Some RedisKind"
| "backend_kind (Instrument name c) = backend_kind c"
| "backend_kind (NewBackground name bg c) = backend_kind c"
| "backend_kind c = None"

definition is_local :: "Cache \<Rightarrow> bool" where
  "is_local t = (backend_kind t = Some Fifo)"

definition is_remote :: "Cache \<Rightarrow> bool" where
  "is_remote t = (backend_kind t = Some Memcached \<or> backend_kind t = Some RedisKind)"

text \<open>The decorators around a backend, outermost first.\<close>

datatype decorator = Instrumentation | BackgroundWriter

fun decorators :: "Cache \<Rightarrow> decorator list" where
  "decorators (Instrument name c) = Instrumentation # decorators c"
| "decorators (NewBackground name bg c) = BackgroundWriter # decorators c"
| "decorators c = []"

text \<open>
  Every name handed to a constructor of the cache, outermost first. \<^verbatim>\<open>NewTiered\<close>
  and \<^verbatim>\<open>NewMemcachedClient\<close> take no name.
\<close>

fun layer_names :: "Cache \<Rightarrow> string list" where
  "layer_names (Injected i) = []"
| "layer_names (NewFifoCache name fc) = [name]"
| "layer_names (NewMemcached mc client name) = [name]"
| "layer_names (NewRedisCache rc name pool) = [name]"
| "layer_names (Instrument name c) = name # layer_names c"
| "layer_names (NewBackground name bg c) = name # layer_names c"
| "layer_names (NewTiered cs) = concat (map layer_names cs)"

subsection \<open>The tiers in terms of the configuration\<close>

text \<open>
  What each block appends, written over the configuration \<^verbatim>\<open>New\<close> received rather
  than over the copy the blocks have updated. The lemmas below show that the blocks
  compute exactly these.
\<close>

definition fifo_backend :: "Config \<Rightarrow> Cache" where
  "fifo_backend cfg =
     NewFifoCache (Prefix cfg @ ''fifocache'')
       ((Fifocache cfg)\<lparr>Validity := resolved (Validity (Fifocache cfg)) (DefaultValidity cfg)\<rparr>)"

definition memcached_backend :: "Config \<Rightarrow> Cache" where
  "memcached_backend cfg =
     NewMemcached
       ((Memcache cfg)\<lparr>MemcachedConfig.Expiration :=
           resolved (MemcachedConfig.Expiration (Memcache cfg)) (DefaultValidity cfg)\<rparr>)
       (NewMemcachedClient (MemcacheClient cfg)) (Prefix cfg)"

definition redis_backend :: "Config \<Rightarrow> Cache" where
  "redis_backend cfg =
     NewRedisCache
       ((Redis cfg)\<lparr>RedisConfig.Expiration :=
           resolved (RedisConfig.Expiration (Redis cfg)) (DefaultValidity cfg)\<rparr>)
       (Prefix cfg @ ''redis'') None"

definition fifo_tier :: "Config \<Rightarrow> Cache" where
  "fifo_tier cfg = Instrument (Prefix cfg @ ''fifocache'') (fifo_backend cfg)"

definition memcached_tier :: "Config \<Rightarrow> Cache" where
  "memcached_tier cfg =
     NewBackground (Prefix cfg @ ''memcache'') (Background cfg)
       (Instrument (Prefix cfg @ ''memcache'') (memcached_backend cfg))"

definition redis_tier :: "Config \<Rightarrow> Cache" where
  "redis_tier cfg =
     NewBackground (Prefix cfg @ ''redis'') (Background cfg)
       (Instrument (Prefix cfg @ ''redis'') (redis_backend cfg))"

definition local_tiers :: "Config \<Rightarrow> Cache list" where
  "local_tiers cfg = (if EnableFifoCache cfg then [fifo_tier cfg] else [])"

definition remote_tiers :: "Config \<Rightarrow> Cache list" where
  "remote_tiers cfg =
     (if Host (MemcacheClient cfg) \<noteq> [] then [memcached_tier cfg]
      else if Endpoint (Redis cfg) \<noteq> [] then [redis_tier cfg]
      else [])"

subsection \<open>Sample configurations\<close>

definition no_backends :: Config where
  "no_backends =
     \<lparr>EnableFifoCache = False, DefaultValidity = 0,
      Background = \<lparr>WriteBackGoroutines = 10, WriteBackBuffer = 10000\<rparr>,
      Memcache = \<lparr>MemcachedConfig.Expiration = 0\<rparr>,
      MemcacheClient = \<lparr>Host = []\<rparr>,
      Redis = \<lparr>Endpoint = [], RedisConfig.Expiration = 0\<rparr>,
      Fifocache = \<lparr>Size = 0, Validity = 0\<rparr>,
      Prefix = ''chunks.'', Cache = None\<rparr>"

definition local_only :: Config where
  "local_only = no_backends\<lparr>EnableFifoCache := True, DefaultValidity := 3600\<rparr>"

definition memcached_only :: Config where
  "memcached_only =
     no_backends\<lparr>MemcacheClient := \<lparr>Host = ''x''\<rparr>,
                 Memcache := \<lparr>MemcachedConfig.Expiration = 60\<rparr>,
                 DefaultValidity := 3600\<rparr>"

definition local_and_redis :: Config where
  "local_and_redis =
     local_only\<lparr>Redis := \<lparr>Endpoint = ''y'', RedisConfig.Expiration = 0\<rparr>,
                Fifocache := \<lparr>Size = 1024, Validity = 30\<rparr>\<rparr>"

definition both_remotes :: Config where
  "both_remotes =
     memcached_only\<lparr>Redis := \<lparr>Endpoint = ''y'', RedisConfig.Expiration = 0\<rparr>\<rparr>"

definition overridden :: Config where
  "overridden = both_remotes\<lparr>Cache := Some (Injected 7)\<rparr>"

text \<open>
  Sample externals on a flag set kept as the list of the names defined so far: the
  backend configurations register nothing, and a flag of the standard library stores its
  default through the pointer. As \<^verbatim>\<open>FlagSet.Var\<close> does, the registration panics on
  a name that begins with "-", on a name that contains "=", and on a name that is
  already defined.
\<close>

definition begins_with_dash :: "string \<Rightarrow> bool" where
  "begins_with_dash name = (case name of [] \<Rightarrow> False | c # rest \<Rightarrow> c = CHR ''-'')"

definition sample_Var :: "'a \<times> string list \<Rightarrow> string \<Rightarrow> 'a \<Rightarrow> string \<Rightarrow> panic + 'a \<times> string list" where
  "sample_Var s name dflt usage =
     (if begins_with_dash name
      then Inl (Panic (''flag '' @ [CHR 0x22] @ name @ [CHR 0x22] @ '' begins with -''))
      else if CHR ''='' \<in> set name
      then Inl (Panic (''flag '' @ [CHR 0x22] @ name @ [CHR 0x22] @ '' contains =''))
      else if name \<in> set (snd s) then Inl (Panic (''flag redefined: '' @ name))
      else Inr (dflt, snd s @ [name]))"

definition sample_externals :: "string list externals" where
  "sample_externals =
     \<lparr>Background_RegisterFlagsWithPrefix = (\<lambda>prefix description s. Inr s),
      Memcache_RegisterFlagsWithPrefix = (\<lambda>prefix description s. Inr s),
      MemcacheClient_RegisterFlagsWithPrefix = (\<lambda>prefix description s. Inr s),
      Redis_RegisterFlagsWithPrefix = (\<lambda>prefix description s. Inr s),
      Fifocache_RegisterFlagsWithPrefix = (\<lambda>prefix description s. Inr s),
      BoolVar = sample_Var, DurationVar = sample_Var\<rparr>"

section \<open>Properties\<close>

subsection \<open>The blocks compute the tiers\<close>

lemma fifo_block_fst:
  "fst (fifo_block (cfg, caches)) =
     (if EnableFifoCache cfg \<and> Validity (Fifocache cfg) = 0 \<and> DefaultValidity cfg \<noteq> 0
      then cfg\<lparr>Fifocache := (Fifocache cfg)\<lparr>Validity := DefaultValidity cfg\<rparr>\<rparr>
      else cfg)"
  by (simp add: fifo_block_def Let_def)

lemma fifo_block_snd: "snd (fifo_block (cfg, caches)) = caches @ local_tiers cfg"
  by (simp add: fifo_block_def Let_def local_tiers_def fifo_tier_def fifo_backend_def
      resolved_def)

lemma fifo_block_keeps:
  "Host (MemcacheClient (fst (fifo_block (cfg, caches)))) = Host (MemcacheClient cfg)"
  "Endpoint (Redis (fst (fifo_block (cfg, caches)))) = Endpoint (Redis cfg)"
  "Prefix (fst (fifo_block (cfg, caches))) = Prefix cfg"
  "DefaultValidity (fst (fifo_block (cfg, caches))) = DefaultValidity cfg"
  "Background (fst (fifo_block (cfg, caches))) = Background cfg"
  "Memcache (fst (fifo_block (cfg, caches))) = Memcache cfg"
  "MemcacheClient (fst (fifo_block (cfg, caches))) = MemcacheClient cfg"
  "Redis (fst (fifo_block (cfg, caches))) = Redis cfg"
  by (simp_all add: fifo_block_fst)

lemma remote_blocks_snd:
  assumes "\<not> (Host (MemcacheClient cfg) \<noteq> [] \<and> Endpoint (Redis cfg) \<noteq> [])"
  shows "snd (redis_block (memcache_block (cfg, caches))) = caches @ remote_tiers cfg"
  using assms
  by (auto simp: redis_block_def memcache_block_def Let_def remote_tiers_def
      memcached_tier_def memcached_backend_def redis_tier_def redis_backend_def resolved_def)

lemma remote_blocks_Prefix:
  "Prefix (fst (redis_block (memcache_block (cfg, caches)))) = Prefix cfg"
  by (simp add: redis_block_def memcache_block_def Let_def)

lemma remote_tiers_cong:
  assumes "Redis a = Redis b" and "Memcache a = Memcache b"
    and "MemcacheClient a = MemcacheClient b" and "Background a = Background b"
    and "Prefix a = Prefix b" and "DefaultValidity a = DefaultValidity b"
  shows "remote_tiers a = remote_tiers b"
  using assms
  by (simp add: remote_tiers_def memcached_tier_def memcached_backend_def redis_tier_def
      redis_backend_def)

lemma assemble_error_iff:
  "(\<exists>e. assemble cfg = Inl e) \<longleftrightarrow>
     Host (MemcacheClient cfg) \<noteq> [] \<and> Endpoint (Redis cfg) \<noteq> []"
  by (simp add: assemble_def Let_def fifo_block_keeps)

lemma assemble_error:
  "Host (MemcacheClient cfg) \<noteq> [] \<Longrightarrow> Endpoint (Redis cfg) \<noteq> [] \<Longrightarrow>
     assemble cfg = Inl (errors_New ''use of multiple cache storage systems is not supported'')"
  by (simp add: assemble_def Let_def fifo_block_keeps)

lemma assemble_caches:
  assumes "assemble cfg = Inr (cfg', caches)"
  shows "caches = local_tiers cfg @ remote_tiers cfg" and "Prefix cfg' = Prefix cfg"
proof -
  obtain c1 t1 where s: "fifo_block (cfg, []) = (c1, t1)"
    by (cases "fifo_block (cfg, [])")
  have t1: "t1 = local_tiers cfg"
    using fifo_block_snd [of cfg "[]"] s by simp
  have c1: "c1 = fst (fifo_block (cfg, []))"
    using s by simp
  have ok: "\<not> (Host (MemcacheClient cfg) \<noteq> [] \<and> Endpoint (Redis cfg) \<noteq> [])"
    using assms assemble_error_iff [of cfg] by auto
  then have ok1: "\<not> (Host (MemcacheClient c1) \<noteq> [] \<and> Endpoint (Redis c1) \<noteq> [])"
    by (simp add: c1 fifo_block_keeps)
  have r: "redis_block (memcache_block (c1, t1)) = (cfg', caches)"
    using assms ok1 by (simp add: assemble_def Let_def s split: if_splits)
  have "remote_tiers c1 = remote_tiers cfg"
    by (rule remote_tiers_cong) (simp_all add: c1 fifo_block_keeps)
  then show "caches = local_tiers cfg @ remote_tiers cfg"
    using remote_blocks_snd [OF ok1, of t1] r t1 by simp
  show "Prefix cfg' = Prefix cfg"
    using remote_blocks_Prefix [of c1 t1] r by (simp add: c1 fifo_block_keeps)
qed

lemma assemble_ok:
  assumes "\<not> (Host (MemcacheClient cfg) \<noteq> [] \<and> Endpoint (Redis cfg) \<noteq> [])"
  shows "\<exists>cfg'. assemble cfg = Inr (cfg', local_tiers cfg @ remote_tiers cfg) \<and>
           Prefix cfg' = Prefix cfg"
proof -
  obtain cfg' caches where a: "assemble cfg = Inr (cfg', caches)"
    using assms assemble_error_iff [of cfg] by (cases "assemble cfg") auto
  then show ?thesis
    using assemble_caches [OF a] by simp
qed

lemma New_closed_form:
  assumes "Cache cfg = None"
    and "\<not> (Host (MemcacheClient cfg) \<noteq> [] \<and> Endpoint (Redis cfg) \<noteq> [])"
  shows "New cfg =
           (Some (if 1 < length (local_tiers cfg @ remote_tiers cfg)
                  then Instrument (Prefix cfg @ ''tiered'')
                         (NewTiered (local_tiers cfg @ remote_tiers cfg))
                  else NewTiered (local_tiers cfg @ remote_tiers cfg)), None)"
proof -
  obtain cfg' where "assemble cfg = Inr (cfg', local_tiers cfg @ remote_tiers cfg)"
    and "Prefix cfg' = Prefix cfg"
    using assemble_ok [OF assms(2)] by blast
  then show ?thesis
    using assms(1) by (simp add: New_def Let_def)
qed

lemma New_error:
  assumes "Cache cfg = None"
    and "Host (MemcacheClient cfg) \<noteq> []" and "Endpoint (Redis cfg) \<noteq> []"
  shows "New cfg =
           (None, Some (errors_New ''use of multiple cache storage systems is not supported''))"
  using assms by (simp add: New_def assemble_error)

subsection \<open>What the tiers look like\<close>

lemma tier_kind:
  "backend_kind (fifo_tier cfg) = Some Fifo"
  "backend_kind (memcached_tier cfg) = Some Memcached"
  "backend_kind (redis_tier cfg) = Some RedisKind"
  by (simp_all add: fifo_tier_def fifo_backend_def memcached_tier_def memcached_backend_def
      redis_tier_def redis_backend_def)

lemma tier_decorators:
  "decorators (fifo_tier cfg) = [Instrumentation]"
  "decorators (memcached_tier cfg) = [BackgroundWriter, Instrumentation]"
  "decorators (redis_tier cfg) = [BackgroundWriter, Instrumentation]"
  by (simp_all add: fifo_tier_def fifo_backend_def memcached_tier_def memcached_backend_def
      redis_tier_def redis_backend_def)

lemma tier_backends:
  "backends (fifo_tier cfg) = [fifo_backend cfg]"
  "backends (memcached_tier cfg) = [memcached_backend cfg]"
  "backends (redis_tier cfg) = [redis_backend cfg]"
  by (simp_all add: fifo_tier_def fifo_backend_def memcached_tier_def memcached_backend_def
      redis_tier_def redis_backend_def)

lemma length_tiers:
  "1 < length (local_tiers cfg @ remote_tiers cfg) \<longleftrightarrow>
     EnableFifoCache cfg \<and> (Host (MemcacheClient cfg) \<noteq> [] \<or> Endpoint (Redis cfg) \<noteq> [])"
  by (simp add: local_tiers_def remote_tiers_def)

lemma tiers_cases:
  assumes "t \<in> set (local_tiers cfg @ remote_tiers cfg)"
  shows "t = fifo_tier cfg \<and> EnableFifoCache cfg \<or>
         t = memcached_tier cfg \<and> Host (MemcacheClient cfg) \<noteq> [] \<or>
         t = redis_tier cfg \<and> Host (MemcacheClient cfg) = [] \<and> Endpoint (Redis cfg) \<noteq> []"
  using assms by (auto simp: local_tiers_def remote_tiers_def split: if_splits)

lemma kinds_of_tiers:
  "map backend_kind (local_tiers cfg @ remote_tiers cfg) =
     (if EnableFifoCache cfg then [Some Fifo] else []) @
     (if Host (MemcacheClient cfg) \<noteq> [] then [Some Memcached]
      else if Endpoint (Redis cfg) \<noteq> [] then [Some RedisKind] else [])"
  by (simp add: local_tiers_def remote_tiers_def tier_kind)

subsection \<open>Flag registration on the sample externals\<close>

lemma begins_with_dash_append:
  "c \<noteq> CHR ''-'' \<Longrightarrow> begins_with_dash (prefix @ c # rest) = begins_with_dash prefix"
  by (cases prefix) (simp_all add: begins_with_dash_def)

lemma sample_Var_fresh:
  assumes "\<not> begins_with_dash name" and "CHR ''='' \<notin> set name" and "name \<notin> set f"
  shows "sample_Var (v, f) name dflt usage = Inr (dflt, f @ [name])"
  using assms by (simp add: sample_Var_def)

lemma sample_Var_redefined:
  assumes "\<not> begins_with_dash name" and "CHR ''='' \<notin> set name" and "name \<in> set f"
  shows "sample_Var (v, f) name dflt usage = Inl (Panic (''flag redefined: '' @ name))"
  using assms by (simp add: sample_Var_def)

lemma sample_Var_bad_name:
  assumes "begins_with_dash name \<or> CHR ''='' \<in> set name"
  shows "\<exists>p. sample_Var s name dflt usage = Inl p"
  using assms by (auto simp: sample_Var_def)

lemma RegisterFlagsWithPrefix_sample:
  "RegisterFlagsWithPrefix sample_externals prefix description (cfg, f) =
     and_then (sample_Var (EnableFifoCache cfg, f) (prefix @ ''cache.enable-fifocache'') False
                 (description @ ''Enable in-memory cache.''))
       (\<lambda>(b, f).
          and_then (sample_Var (DefaultValidity cfg, f) (prefix @ ''default-validity'') 0
                      (description @
                         ''The default validity of entries for caches unless overridden.''))
            (\<lambda>(d, f).
               Inr (cfg\<lparr>EnableFifoCache := b, DefaultValidity := d, Prefix := prefix\<rparr>, f)))"
  by (simp add: RegisterFlagsWithPrefix_def and_then_def sample_externals_def
      split: sum.splits)

lemma RegisterFlagsWithPrefix_fresh:
  assumes "\<not> begins_with_dash prefix" and "CHR ''='' \<notin> set prefix"
  shows "RegisterFlagsWithPrefix sample_externals prefix description (cfg, []) =
     Inr (cfg\<lparr>EnableFifoCache := False, DefaultValidity := 0, Prefix := prefix\<rparr>,
          [prefix @ ''cache.enable-fifocache'', prefix @ ''default-validity''])"
proof -
  have s1: "sample_Var (EnableFifoCache cfg, []) (prefix @ ''cache.enable-fifocache'') False
      (description @ ''Enable in-memory cache.'') =
      Inr (False, [] @ [prefix @ ''cache.enable-fifocache''])"
    by (rule sample_Var_fresh) (simp_all add: assms begins_with_dash_append)
  have s2: "sample_Var (DefaultValidity cfg, [prefix @ ''cache.enable-fifocache''])
      (prefix @ ''default-validity'') 0
      (description @ ''The default validity of entries for caches unless overridden.'') =
      Inr (0, [prefix @ ''cache.enable-fifocache''] @ [prefix @ ''default-validity''])"
    by (rule sample_Var_fresh) (simp_all add: assms begins_with_dash_append)
  show ?thesis
    unfolding RegisterFlagsWithPrefix_sample and_then_def s1
    by (simp add: s2)
qed

lemma RegisterFlagsWithPrefix_redefined:
  assumes "\<not> begins_with_dash prefix" and "CHR ''='' \<notin> set prefix"
  shows "RegisterFlagsWithPrefix sample_externals prefix description
       (cfg, [prefix @ ''cache.enable-fifocache'']) =
     Inl (Panic (''flag redefined: '' @ prefix @ ''cache.enable-fifocache''))"
proof -
  have s1: "sample_Var (EnableFifoCache cfg, [prefix @ ''cache.enable-fifocache''])
      (prefix @ ''cache.enable-fifocache'') False (description @ ''Enable in-memory cache.'') =
      Inl (Panic (''flag redefined: '' @ prefix @ ''cache.enable-fifocache''))"
    by (rule sample_Var_redefined) (simp_all add: assms begins_with_dash_append)
  show ?thesis
    unfolding RegisterFlagsWithPrefix_sample and_then_def s1
    by simp
qed

lemma RegisterFlagsWithPrefix_bad_name:
  assumes "begins_with_dash prefix \<or> CHR ''='' \<in> set prefix"
  shows "\<exists>p. RegisterFlagsWithPrefix sample_externals prefix description (cfg, f) = Inl p"
proof -
  have "begins_with_dash (prefix @ ''cache.enable-fifocache'') \<or>
      CHR ''='' \<in> set (prefix @ ''cache.enable-fifocache'')"
    using assms by (auto simp: begins_with_dash_append)
  then have "\<exists>p. sample_Var (EnableFifoCache cfg, f)
      (prefix @ ''cache.enable-fifocache'') False (description @ ''Enable in-memory cache.'') =
      Inl p"
    by (rule sample_Var_bad_name)
  then obtain p where s1: "sample_Var (EnableFifoCache cfg, f)
      (prefix @ ''cache.enable-fifocache'') False (description @ ''Enable in-memory cache.'') =
      Inl p" ..
  show ?thesis
    unfolding RegisterFlagsWithPrefix_sample and_then_def s1
    by simp
qed

subsection \<open>Claims\<close>

text \<open>
  C2. If the configuration carries an explicit override Cache, \<^verbatim>\<open>New\<close> returns exactly
  that Cache with a nil error. Nothing else in the configuration matters: any two
  configurations with the same override give the same result, so the mutual-exclusion
  check is not reached and memcached host and redis endpoint may both be set.
\<close>

theorem C2_override_returned_unchanged:
  "Cache cfg = Some c \<Longrightarrow>
     New cfg = (Some c, None) \<and> (\<forall>cfg2. Cache cfg2 = Some c \<longrightarrow> New cfg2 = New cfg)"
  by (simp add: New_def)

theorem C2_override_witness:
  "Cache overridden = Some (Injected 7) \<and>
   Host (MemcacheClient overridden) \<noteq> [] \<and> Endpoint (Redis overridden) \<noteq> [] \<and>
   New overridden = (Some (Injected 7), None)"
proof -
  have h: "Cache overridden = Some (Injected 7)"
    by (simp add: overridden_def)
  have "Host (MemcacheClient overridden) \<noteq> [] \<and> Endpoint (Redis overridden) \<noteq> []"
    by (simp add: overridden_def both_remotes_def memcached_only_def no_backends_def)
  then show ?thesis
    using h C2_override_returned_unchanged [OF h] by simp
qed

text \<open>
  C1. \<^verbatim>\<open>New\<close> returns an error exactly when no override Cache is set and both the
  memcached host and the redis endpoint are non-empty. With the error no Cache is
  returned, and whenever no error is returned a Cache is.
\<close>

theorem C1_error_iff_both_remotes:
  "(snd (New cfg) \<noteq> None \<longleftrightarrow>
      Cache cfg = None \<and> Host (MemcacheClient cfg) \<noteq> [] \<and> Endpoint (Redis cfg) \<noteq> []) \<and>
   (snd (New cfg) \<noteq> None \<longrightarrow> fst (New cfg) = None) \<and>
   (snd (New cfg) = None \<longrightarrow> fst (New cfg) \<noteq> None)"
proof (cases "Cache cfg")
  case (Some c)
  then show ?thesis by (simp add: New_def)
next
  case None
  show ?thesis
  proof (cases "Host (MemcacheClient cfg) \<noteq> [] \<and> Endpoint (Redis cfg) \<noteq> []")
    case True
    then show ?thesis using None by (simp add: New_error)
  next
    case False
    then show ?thesis using None New_closed_form [OF None False] by auto
  qed
qed

theorem C1_error_witness:
  "Cache both_remotes = None \<and> Host (MemcacheClient both_remotes) \<noteq> [] \<and>
   Endpoint (Redis both_remotes) \<noteq> [] \<and>
   snd (New both_remotes) \<noteq> None \<and> fst (New both_remotes) = None \<and>
   snd (New local_only) = None \<and> fst (New local_only) \<noteq> None"
proof -
  have h: "Cache both_remotes = None \<and> Host (MemcacheClient both_remotes) \<noteq> [] \<and>
      Endpoint (Redis both_remotes) \<noteq> []"
    by (simp add: both_remotes_def memcached_only_def no_backends_def)
  have k: "Host (MemcacheClient local_only) = []"
    by (simp add: local_only_def no_backends_def)
  show ?thesis
    using h k C1_error_iff_both_remotes [of both_remotes]
      C1_error_iff_both_remotes [of local_only]
    by blast
qed

text \<open>
  C7. With no override, the local cache disabled and neither remote endpoint set,
  \<^verbatim>\<open>New\<close> does not fail: it returns the composite \<^verbatim>\<open>NewTiered\<close> builds from the empty
  tier list, and a nil error.
\<close>

theorem C7_zero_tiers_legal:
  assumes "Cache cfg = None" and "\<not> EnableFifoCache cfg"
    and "Host (MemcacheClient cfg) = []" and "Endpoint (Redis cfg) = []"
  shows "New cfg = (Some (NewTiered []), None)"
proof -
  have "\<not> (Host (MemcacheClient cfg) \<noteq> [] \<and> Endpoint (Redis cfg) \<noteq> [])"
    using assms(3) by simp
  from New_closed_form [OF assms(1) this] show ?thesis
    using assms(2,3,4) by (simp add: local_tiers_def remote_tiers_def)
qed

theorem C7_zero_tiers_witness:
  "Cache no_backends = None \<and> \<not> EnableFifoCache no_backends \<and>
   Host (MemcacheClient no_backends) = [] \<and> Endpoint (Redis no_backends) = [] \<and>
   New no_backends = (Some (NewTiered []), None)"
proof -
  have h: "Cache no_backends = None" "\<not> EnableFifoCache no_backends"
    "Host (MemcacheClient no_backends) = []" "Endpoint (Redis no_backends) = []"
    by (simp_all add: no_backends_def)
  show ?thesis
    using h C7_zero_tiers_legal [OF h] by simp
qed

text \<open>
  C9, as stated: with both remote backends configured the error carries the message
  "multiple cache storage systems not supported". It does not: line 74 builds the error
  from another text.
\<close>

theorem C9_message_counterexample:
  "Cache both_remotes = None \<and> Host (MemcacheClient both_remotes) = ''x'' \<and>
   Endpoint (Redis both_remotes) = ''y'' \<and>
   snd (New both_remotes) \<noteq> Some (errors_New ''multiple cache storage systems not supported'')"
  by (simp add: New_def assemble_def fifo_block_def both_remotes_def memcached_only_def
      no_backends_def)

text \<open>
  C9, amended. With no override and both remote backends configured, the error
  \<^verbatim>\<open>New\<close> returns carries exactly the message "use of multiple cache storage systems is
  not supported", and \<^verbatim>\<open>New\<close> returns no error with any other message.
\<close>

theorem C9_error_message:
  "(Cache cfg = None \<and> Host (MemcacheClient cfg) \<noteq> [] \<and> Endpoint (Redis cfg) \<noteq> [] \<longrightarrow>
      snd (New cfg) =
        Some (errors_New ''use of multiple cache storage systems is not supported'')) \<and>
   (\<forall>e. snd (New cfg) = Some e \<longrightarrow>
      e = errors_New ''use of multiple cache storage systems is not supported'')"
proof (cases "Cache cfg")
  case (Some c)
  then show ?thesis by (simp add: New_def)
next
  case None
  show ?thesis
  proof (cases "Host (MemcacheClient cfg) \<noteq> [] \<and> Endpoint (Redis cfg) \<noteq> []")
    case True
    then show ?thesis using None by (simp add: New_error)
  next
    case False
    then show ?thesis using None New_closed_form [OF None False] by auto
  qed
qed

theorem C9_error_message_witness:
  "Cache both_remotes = None \<and> Host (MemcacheClient both_remotes) \<noteq> [] \<and>
   Endpoint (Redis both_remotes) \<noteq> [] \<and>
   snd (New both_remotes) =
     Some (errors_New ''use of multiple cache storage systems is not supported'')"
proof -
  have h: "Cache both_remotes = None \<and> Host (MemcacheClient both_remotes) \<noteq> [] \<and>
      Endpoint (Redis both_remotes) \<noteq> []"
    by (simp add: both_remotes_def memcached_only_def no_backends_def)
  show ?thesis
    using h C9_error_message [of both_remotes] by blast
qed

text \<open>
  C4. When \<^verbatim>\<open>New\<close> runs without an override and lines 62 to 96 leave the tier list
  \<open>caches\<close>, the returned Cache is \<^verbatim>\<open>Instrument(cfg.Prefix+"tiered", NewTiered(caches))\<close>
  if the list has more than one entry and \<^verbatim>\<open>NewTiered(caches)\<close> itself otherwise. So the
  result has an outer Instrumentation layer exactly when the list has more than one
  entry, which is when the local cache and a remote backend are both configured.
\<close>

theorem C4_outer_instrumentation:
  assumes "Cache cfg = None" and "assemble cfg = Inr (cfg', caches)"
  shows "New cfg =
           (Some (if 1 < length caches
                  then Instrument (Prefix cfg @ ''tiered'') (NewTiered caches)
                  else NewTiered caches), None) \<and>
         ((\<exists>name inner. fst (New cfg) = Some (Instrument name inner)) \<longleftrightarrow> 1 < length caches) \<and>
         (length caches \<le> 1 \<longrightarrow> fst (New cfg) = Some (NewTiered caches)) \<and>
         (1 < length caches \<longleftrightarrow>
            EnableFifoCache cfg \<and>
            (Host (MemcacheClient cfg) \<noteq> [] \<or> Endpoint (Redis cfg) \<noteq> []))"
proof -
  have new: "New cfg =
      (Some (if 1 < length caches
             then Instrument (Prefix cfg @ ''tiered'') (NewTiered caches)
             else NewTiered caches), None)"
    using assms assemble_caches(2) [OF assms(2)] by (simp add: New_def Let_def)
  have len: "1 < length caches \<longleftrightarrow>
      EnableFifoCache cfg \<and> (Host (MemcacheClient cfg) \<noteq> [] \<or> Endpoint (Redis cfg) \<noteq> [])"
    using assemble_caches(1) [OF assms(2)] length_tiers [of cfg] by simp
  have outer: "(\<exists>name inner. fst (New cfg) = Some (Instrument name inner)) \<longleftrightarrow>
      1 < length caches"
    by (simp add: new)
  have single: "length caches \<le> 1 \<longrightarrow> fst (New cfg) = Some (NewTiered caches)"
    by (simp add: new)
  show ?thesis
    using new len outer single by blast
qed

theorem C4_outer_instrumentation_witness:
  "Cache local_and_redis = None \<and>
   assemble local_and_redis =
     Inr (local_and_redis\<lparr>Redis := \<lparr>Endpoint = ''y'', RedisConfig.Expiration = 3600\<rparr>\<rparr>,
          [fifo_tier local_and_redis, redis_tier local_and_redis]) \<and>
   New local_and_redis =
     (Some (Instrument ''chunks.tiered''
        (NewTiered [fifo_tier local_and_redis, redis_tier local_and_redis])), None) \<and>
   Cache local_only = None \<and>
   assemble local_only =
     Inr (local_only\<lparr>Fifocache := \<lparr>Size = 0, Validity = 3600\<rparr>\<rparr>, [fifo_tier local_only]) \<and>
   New local_only = (Some (NewTiered [fifo_tier local_only]), None)"
proof -
  have h: "Cache local_and_redis = None"
    by (simp add: local_and_redis_def local_only_def no_backends_def)
  have a: "assemble local_and_redis =
     Inr (local_and_redis\<lparr>Redis := \<lparr>Endpoint = ''y'', RedisConfig.Expiration = 3600\<rparr>\<rparr>,
          [fifo_tier local_and_redis, redis_tier local_and_redis])"
    by (simp add: assemble_def fifo_block_def memcache_block_def redis_block_def Let_def
        fifo_tier_def fifo_backend_def redis_tier_def redis_backend_def resolved_def
        local_and_redis_def local_only_def no_backends_def)
  have p: "Prefix local_and_redis = ''chunks.''"
    by (simp add: local_and_redis_def local_only_def no_backends_def)
  have h1: "Cache local_only = None"
    by (simp add: local_only_def no_backends_def)
  have a1: "assemble local_only =
     Inr (local_only\<lparr>Fifocache := \<lparr>Size = 0, Validity = 3600\<rparr>\<rparr>, [fifo_tier local_only])"
    by (simp add: assemble_def fifo_block_def memcache_block_def redis_block_def Let_def
        fifo_tier_def fifo_backend_def resolved_def local_only_def no_backends_def)
  show ?thesis
    using h a p h1 a1 C4_outer_instrumentation [OF h a] C4_outer_instrumentation [OF h1 a1]
    by simp
qed

text \<open>
  C5. When lines 62 to 96 end without the error, the tier list they leave is exactly:
  the local tier \<^verbatim>\<open>Instrument(name, NewFifoCache(...))\<close> if local caching is enabled,
  followed by the remote tier \<^verbatim>\<open>NewBackground(name, cfg.Background, Instrument(name,
  backend))\<close> on the memcached backend if a memcached host is set, else on the redis
  backend if a redis endpoint is set. So an enabled local tier and a configured remote
  tier are built and are in the list, and every tier of the list is built on a local or
  on a remote backend with its chain: Instrumentation is the only decorator of the local
  tier; on a remote tier the Background decorator is outermost and Instrumentation sits
  directly on the backend.
\<close>

theorem C5_decorator_chains:
  assumes "assemble cfg = Inr (cfg', caches)"
  shows "caches =
           (if EnableFifoCache cfg
            then [Instrument (Prefix cfg @ ''fifocache'') (fifo_backend cfg)] else []) @
           (if Host (MemcacheClient cfg) \<noteq> []
            then [NewBackground (Prefix cfg @ ''memcache'') (Background cfg)
                    (Instrument (Prefix cfg @ ''memcache'') (memcached_backend cfg))]
            else if Endpoint (Redis cfg) \<noteq> []
            then [NewBackground (Prefix cfg @ ''redis'') (Background cfg)
                    (Instrument (Prefix cfg @ ''redis'') (redis_backend cfg))]
            else []) \<and>
         (EnableFifoCache cfg \<longrightarrow>
            (\<exists>t \<in> set caches. is_local t \<and> decorators t = [Instrumentation])) \<and>
         (Host (MemcacheClient cfg) \<noteq> [] \<or> Endpoint (Redis cfg) \<noteq> [] \<longrightarrow>
            (\<exists>t \<in> set caches.
               is_remote t \<and> decorators t = [BackgroundWriter, Instrumentation])) \<and>
         (\<forall>t \<in> set caches.
            (is_local t \<or> is_remote t) \<and>
            (is_local t \<longrightarrow>
               decorators t = [Instrumentation] \<and>
               t = Instrument (Prefix cfg @ ''fifocache'') (fifo_backend cfg)) \<and>
            (is_remote t \<longrightarrow>
               decorators t = [BackgroundWriter, Instrumentation] \<and>
               (\<exists>name backend.
                  t = NewBackground name (Background cfg) (Instrument name backend) \<and>
                  (backend = memcached_backend cfg \<or> backend = redis_backend cfg))))"
proof -
  have c: "caches = local_tiers cfg @ remote_tiers cfg"
    by (rule assemble_caches(1) [OF assms])
  have list: "caches =
      (if EnableFifoCache cfg
       then [Instrument (Prefix cfg @ ''fifocache'') (fifo_backend cfg)] else []) @
      (if Host (MemcacheClient cfg) \<noteq> []
       then [NewBackground (Prefix cfg @ ''memcache'') (Background cfg)
               (Instrument (Prefix cfg @ ''memcache'') (memcached_backend cfg))]
       else if Endpoint (Redis cfg) \<noteq> []
       then [NewBackground (Prefix cfg @ ''redis'') (Background cfg)
               (Instrument (Prefix cfg @ ''redis'') (redis_backend cfg))]
       else [])"
    by (simp add: c local_tiers_def remote_tiers_def fifo_tier_def memcached_tier_def
        redis_tier_def)
  have loc: "EnableFifoCache cfg \<longrightarrow>
      (\<exists>t \<in> set caches. is_local t \<and> decorators t = [Instrumentation])"
    by (auto simp: c local_tiers_def is_local_def tier_kind tier_decorators)
  have rem: "Host (MemcacheClient cfg) \<noteq> [] \<or> Endpoint (Redis cfg) \<noteq> [] \<longrightarrow>
      (\<exists>t \<in> set caches. is_remote t \<and> decorators t = [BackgroundWriter, Instrumentation])"
    by (auto simp: c remote_tiers_def is_remote_def tier_kind tier_decorators)
  have each: "(is_local t \<or> is_remote t) \<and>
      (is_local t \<longrightarrow>
         decorators t = [Instrumentation] \<and>
         t = Instrument (Prefix cfg @ ''fifocache'') (fifo_backend cfg)) \<and>
      (is_remote t \<longrightarrow>
         decorators t = [BackgroundWriter, Instrumentation] \<and>
         (\<exists>name backend.
            t = NewBackground name (Background cfg) (Instrument name backend) \<and>
            (backend = memcached_backend cfg \<or> backend = redis_backend cfg)))"
    if t: "t \<in> set caches" for t
  proof -
    have "t \<in> set (local_tiers cfg @ remote_tiers cfg)"
      using t by (simp only: c)
    then consider "t = fifo_tier cfg" | "t = memcached_tier cfg" | "t = redis_tier cfg"
      using tiers_cases [of t cfg] by blast
    then show ?thesis
    proof cases
      case 1
      then show ?thesis
        by (simp add: is_local_def is_remote_def tier_kind tier_decorators)
          (simp add: fifo_tier_def)
    next
      case 2
      then show ?thesis
        by (simp add: is_local_def is_remote_def tier_kind tier_decorators)
          (simp add: memcached_tier_def)
    next
      case 3
      then show ?thesis
        by (simp add: is_local_def is_remote_def tier_kind tier_decorators)
          (simp add: redis_tier_def)
    qed
  qed
  show ?thesis
    by (rule conjI [OF list conjI [OF loc conjI [OF rem ballI [OF each]]]])
qed

theorem C5_decorator_chains_witness:
  "assemble local_and_redis =
     Inr (local_and_redis\<lparr>Redis := \<lparr>Endpoint = ''y'', RedisConfig.Expiration = 3600\<rparr>\<rparr>,
          [Instrument ''chunks.fifocache''
             (NewFifoCache ''chunks.fifocache'' \<lparr>Size = 1024, Validity = 30\<rparr>),
           NewBackground ''chunks.redis''
             \<lparr>WriteBackGoroutines = 10, WriteBackBuffer = 10000\<rparr>
             (Instrument ''chunks.redis''
                (NewRedisCache \<lparr>Endpoint = ''y'', RedisConfig.Expiration = 3600\<rparr>
                   ''chunks.redis'' None))]) \<and>
   EnableFifoCache local_and_redis \<and>
   Endpoint (Redis local_and_redis) \<noteq> [] \<and>
   (\<exists>t \<in> set [Instrument ''chunks.fifocache''
             (NewFifoCache ''chunks.fifocache'' \<lparr>Size = 1024, Validity = 30\<rparr>),
           NewBackground ''chunks.redis''
             \<lparr>WriteBackGoroutines = 10, WriteBackBuffer = 10000\<rparr>
             (Instrument ''chunks.redis''
                (NewRedisCache \<lparr>Endpoint = ''y'', RedisConfig.Expiration = 3600\<rparr>
                   ''chunks.redis'' None))].
      is_local t \<and> decorators t = [Instrumentation]) \<and>
   (\<exists>t \<in> set [Instrument ''chunks.fifocache''
             (NewFifoCache ''chunks.fifocache'' \<lparr>Size = 1024, Validity = 30\<rparr>),
           NewBackground ''chunks.redis''
             \<lparr>WriteBackGoroutines = 10, WriteBackBuffer = 10000\<rparr>
             (Instrument ''chunks.redis''
                (NewRedisCache \<lparr>Endpoint = ''y'', RedisConfig.Expiration = 3600\<rparr>
                   ''chunks.redis'' None))].
      is_remote t \<and> decorators t = [BackgroundWriter, Instrumentation]) \<and>
   assemble memcached_only =
     Inr (memcached_only,
          [NewBackground ''chunks.memcache''
             \<lparr>WriteBackGoroutines = 10, WriteBackBuffer = 10000\<rparr>
             (Instrument ''chunks.memcache''
                (NewMemcached \<lparr>MemcachedConfig.Expiration = 60\<rparr>
                   (NewMemcachedClient \<lparr>Host = ''x''\<rparr>) ''chunks.''))]) \<and>
   Host (MemcacheClient memcached_only) \<noteq> [] \<and>
   (\<exists>t \<in> set [NewBackground ''chunks.memcache''
             \<lparr>WriteBackGoroutines = 10, WriteBackBuffer = 10000\<rparr>
             (Instrument ''chunks.memcache''
                (NewMemcached \<lparr>MemcachedConfig.Expiration = 60\<rparr>
                   (NewMemcachedClient \<lparr>Host = ''x''\<rparr>) ''chunks.''))].
      is_remote t \<and> decorators t = [BackgroundWriter, Instrumentation])"
proof -
  have a: "assemble local_and_redis =
     Inr (local_and_redis\<lparr>Redis := \<lparr>Endpoint = ''y'', RedisConfig.Expiration = 3600\<rparr>\<rparr>,
          [Instrument ''chunks.fifocache''
             (NewFifoCache ''chunks.fifocache'' \<lparr>Size = 1024, Validity = 30\<rparr>),
           NewBackground ''chunks.redis''
             \<lparr>WriteBackGoroutines = 10, WriteBackBuffer = 10000\<rparr>
             (Instrument ''chunks.redis''
                (NewRedisCache \<lparr>Endpoint = ''y'', RedisConfig.Expiration = 3600\<rparr>
                   ''chunks.redis'' None))])"
    by (simp add: assemble_def fifo_block_def memcache_block_def redis_block_def Let_def
        local_and_redis_def local_only_def no_backends_def)
  have m: "assemble memcached_only =
     Inr (memcached_only,
          [NewBackground ''chunks.memcache''
             \<lparr>WriteBackGoroutines = 10, WriteBackBuffer = 10000\<rparr>
             (Instrument ''chunks.memcache''
                (NewMemcached \<lparr>MemcachedConfig.Expiration = 60\<rparr>
                   (NewMemcachedClient \<lparr>Host = ''x''\<rparr>) ''chunks.''))])"
    by (simp add: assemble_def fifo_block_def memcache_block_def redis_block_def Let_def
        memcached_only_def no_backends_def)
  have e1: "EnableFifoCache local_and_redis"
    by (simp add: local_and_redis_def local_only_def no_backends_def)
  have e2: "Endpoint (Redis local_and_redis) \<noteq> []"
    by (simp add: local_and_redis_def local_only_def no_backends_def)
  have e3: "Host (MemcacheClient memcached_only) \<noteq> []"
    by (simp add: memcached_only_def no_backends_def)
  have w1: "(\<exists>t \<in> set [Instrument ''chunks.fifocache''
             (NewFifoCache ''chunks.fifocache'' \<lparr>Size = 1024, Validity = 30\<rparr>),
           NewBackground ''chunks.redis''
             \<lparr>WriteBackGoroutines = 10, WriteBackBuffer = 10000\<rparr>
             (Instrument ''chunks.redis''
                (NewRedisCache \<lparr>Endpoint = ''y'', RedisConfig.Expiration = 3600\<rparr>
                   ''chunks.redis'' None))].
      is_local t \<and> decorators t = [Instrumentation])"
    by (rule mp [OF conjunct1 [OF conjunct2 [OF C5_decorator_chains [OF a]]] e1])
  have w2: "(\<exists>t \<in> set [Instrument ''chunks.fifocache''
             (NewFifoCache ''chunks.fifocache'' \<lparr>Size = 1024, Validity = 30\<rparr>),
           NewBackground ''chunks.redis''
             \<lparr>WriteBackGoroutines = 10, WriteBackBuffer = 10000\<rparr>
             (Instrument ''chunks.redis''
                (NewRedisCache \<lparr>Endpoint = ''y'', RedisConfig.Expiration = 3600\<rparr>
                   ''chunks.redis'' None))].
      is_remote t \<and> decorators t = [BackgroundWriter, Instrumentation])"
    by (rule mp [OF conjunct1 [OF conjunct2 [OF conjunct2 [OF C5_decorator_chains [OF a]]]]
          disjI2 [OF e2]])
  have w3: "(\<exists>t \<in> set [NewBackground ''chunks.memcache''
             \<lparr>WriteBackGoroutines = 10, WriteBackBuffer = 10000\<rparr>
             (Instrument ''chunks.memcache''
                (NewMemcached \<lparr>MemcachedConfig.Expiration = 60\<rparr>
                   (NewMemcachedClient \<lparr>Host = ''x''\<rparr>) ''chunks.''))].
      is_remote t \<and> decorators t = [BackgroundWriter, Instrumentation])"
    by (rule mp [OF conjunct1 [OF conjunct2 [OF conjunct2 [OF C5_decorator_chains [OF m]]]]
          disjI1 [OF e3]])
  show ?thesis
    by (intro conjI; fact)
qed

text \<open>
  C6. When lines 62 to 96 end without the error, the tier list they leave holds a local
  tier exactly when local caching is enabled, every local tier stands before every remote
  tier, and there is at most one remote tier: never a memcached tier and a redis tier
  together. The kinds of the tiers, in order, are the local kind if enabled, then the
  memcached kind if a host is set, else the redis kind if an endpoint is set.
\<close>

theorem C6_tier_order:
  assumes "assemble cfg = Inr (cfg', caches)"
  shows "map backend_kind caches =
           (if EnableFifoCache cfg then [Some Fifo] else []) @
           (if Host (MemcacheClient cfg) \<noteq> [] then [Some Memcached]
            else if Endpoint (Redis cfg) \<noteq> [] then [Some RedisKind] else []) \<and>
         ((\<exists>t \<in> set caches. is_local t) \<longleftrightarrow> EnableFifoCache cfg) \<and>
         (\<forall>i j. i < length caches \<and> j < length caches \<and>
                is_local (caches ! i) \<and> is_remote (caches ! j) \<longrightarrow> i < j) \<and>
         length (filter is_remote caches) \<le> 1 \<and>
         \<not> (Some Memcached \<in> set (map backend_kind caches) \<and>
            Some RedisKind \<in> set (map backend_kind caches))"
proof -
  have c: "caches = local_tiers cfg @ remote_tiers cfg"
    by (rule assemble_caches(1) [OF assms])
  have kinds: "map backend_kind caches =
      (if EnableFifoCache cfg then [Some Fifo] else []) @
      (if Host (MemcacheClient cfg) \<noteq> [] then [Some Memcached]
       else if Endpoint (Redis cfg) \<noteq> [] then [Some RedisKind] else [])"
    by (simp only: c kinds_of_tiers)
  have loc: "(\<exists>t \<in> set caches. is_local t) \<longleftrightarrow> EnableFifoCache cfg"
    by (auto simp: c local_tiers_def remote_tiers_def is_local_def tier_kind
        split: if_splits)
  have ord: "\<forall>i j. i < length caches \<and> j < length caches \<and>
      is_local (caches ! i) \<and> is_remote (caches ! j) \<longrightarrow> i < j"
    by (auto simp: c local_tiers_def remote_tiers_def is_local_def is_remote_def tier_kind
        nth_Cons' less_Suc_eq)
  have one: "length (filter is_remote caches) \<le> 1"
    by (simp add: c local_tiers_def remote_tiers_def is_remote_def tier_kind)
  have excl: "\<not> (Some Memcached \<in> set (map backend_kind caches) \<and>
      Some RedisKind \<in> set (map backend_kind caches))"
    by (simp add: kinds)
  show ?thesis
    using kinds loc ord one excl by blast
qed

theorem C6_tier_order_witness:
  "assemble local_and_redis =
     Inr (local_and_redis\<lparr>Redis := \<lparr>Endpoint = ''y'', RedisConfig.Expiration = 3600\<rparr>\<rparr>,
          [fifo_tier local_and_redis, redis_tier local_and_redis]) \<and>
   map backend_kind [fifo_tier local_and_redis, redis_tier local_and_redis] =
     [Some Fifo, Some RedisKind] \<and>
   length (filter is_remote [fifo_tier local_and_redis, redis_tier local_and_redis]) \<le> 1 \<and>
   is_local ([fifo_tier local_and_redis, redis_tier local_and_redis] ! 0) \<and>
   is_remote ([fifo_tier local_and_redis, redis_tier local_and_redis] ! 1) \<and> (0::nat) < 1"
proof -
  have a: "assemble local_and_redis =
     Inr (local_and_redis\<lparr>Redis := \<lparr>Endpoint = ''y'', RedisConfig.Expiration = 3600\<rparr>\<rparr>,
          [fifo_tier local_and_redis, redis_tier local_and_redis])"
    by (simp add: assemble_def fifo_block_def memcache_block_def redis_block_def Let_def
        fifo_tier_def fifo_backend_def redis_tier_def redis_backend_def resolved_def
        local_and_redis_def local_only_def no_backends_def)
  have e: "EnableFifoCache local_and_redis \<and> Host (MemcacheClient local_and_redis) = [] \<and>
      Endpoint (Redis local_and_redis) \<noteq> []"
    by (simp add: local_and_redis_def local_only_def no_backends_def)
  have k: "is_local ([fifo_tier local_and_redis, redis_tier local_and_redis] ! 0) \<and>
      is_remote ([fifo_tier local_and_redis, redis_tier local_and_redis] ! 1)"
    by (simp add: is_local_def is_remote_def tier_kind)
  show ?thesis
    using a e k C6_tier_order [OF a] by simp
qed

text \<open>
  C3. When \<^verbatim>\<open>New\<close> runs without an override and returns the Cache \<open>c\<close>, the backends
  in \<open>c\<close> are those the configuration asks for, each constructed from its own
  configuration with only the validity (expiration) resolved. For every one of them the
  validity it was constructed with is the backend's own configured value when that is
  non-zero, and \<^verbatim>\<open>DefaultValidity\<close> when the own value is zero; it differs from the
  own value only when that is zero, and with a zero \<^verbatim>\<open>DefaultValidity\<close> it is the own
  value in either case.
\<close>

theorem C3_validity_defaulting:
  assumes "Cache cfg = None" and "New cfg = (Some c, None)"
  shows "backends c =
           (if EnableFifoCache cfg then [fifo_backend cfg] else []) @
           (if Host (MemcacheClient cfg) \<noteq> [] then [memcached_backend cfg]
            else if Endpoint (Redis cfg) \<noteq> [] then [redis_backend cfg] else []) \<and>
         (\<forall>b \<in> set (backends c). \<exists>own v.
            configured_validity cfg b = Some own \<and> constructed_validity b = Some v \<and>
            (own \<noteq> 0 \<longrightarrow> v = own) \<and>
            (own = 0 \<longrightarrow> v = DefaultValidity cfg) \<and>
            (v \<noteq> own \<longrightarrow> own = 0 \<and> v = DefaultValidity cfg) \<and>
            (DefaultValidity cfg = 0 \<longrightarrow> v = own))"
proof -
  have ok: "\<not> (Host (MemcacheClient cfg) \<noteq> [] \<and> Endpoint (Redis cfg) \<noteq> [])"
    using assms New_error [of cfg] by auto
  have c: "c = (if 1 < length (local_tiers cfg @ remote_tiers cfg)
                then Instrument (Prefix cfg @ ''tiered'')
                       (NewTiered (local_tiers cfg @ remote_tiers cfg))
                else NewTiered (local_tiers cfg @ remote_tiers cfg))"
    using New_closed_form [OF assms(1) ok] assms(2) by simp
  have bs: "backends c =
      (if EnableFifoCache cfg then [fifo_backend cfg] else []) @
      (if Host (MemcacheClient cfg) \<noteq> [] then [memcached_backend cfg]
       else if Endpoint (Redis cfg) \<noteq> [] then [redis_backend cfg] else [])"
    by (simp add: c local_tiers_def remote_tiers_def tier_backends)
  have each: "\<exists>own v.
      configured_validity cfg b = Some own \<and> constructed_validity b = Some v \<and>
      (own \<noteq> 0 \<longrightarrow> v = own) \<and> (own = 0 \<longrightarrow> v = DefaultValidity cfg) \<and>
      (v \<noteq> own \<longrightarrow> own = 0 \<and> v = DefaultValidity cfg) \<and>
      (DefaultValidity cfg = 0 \<longrightarrow> v = own)"
    if "b = fifo_backend cfg \<or> b = memcached_backend cfg \<or> b = redis_backend cfg" for b
    using that
    by (auto simp: fifo_backend_def memcached_backend_def redis_backend_def resolved_def)
  have "\<forall>b \<in> set (backends c). b = fifo_backend cfg \<or> b = memcached_backend cfg \<or>
      b = redis_backend cfg"
    by (auto simp: bs split: if_splits)
  then show ?thesis
    using bs each by blast
qed

theorem C3_validity_defaulting_witness:
  "Cache local_and_redis = None \<and>
   New local_and_redis =
     (Some (Instrument ''chunks.tiered''
        (NewTiered [fifo_tier local_and_redis, redis_tier local_and_redis])), None) \<and>
   backends (Instrument ''chunks.tiered''
        (NewTiered [fifo_tier local_and_redis, redis_tier local_and_redis])) =
     [NewFifoCache ''chunks.fifocache'' \<lparr>Size = 1024, Validity = 30\<rparr>,
      NewRedisCache \<lparr>Endpoint = ''y'', RedisConfig.Expiration = 3600\<rparr> ''chunks.redis'' None] \<and>
   DefaultValidity local_and_redis = 3600 \<and>
   Validity (Fifocache local_and_redis) = 30 \<and>
   RedisConfig.Expiration (Redis local_and_redis) = 0"
proof -
  have h: "Cache local_and_redis = None"
    by (simp add: local_and_redis_def local_only_def no_backends_def)
  have n: "New local_and_redis =
     (Some (Instrument ''chunks.tiered''
        (NewTiered [fifo_tier local_and_redis, redis_tier local_and_redis])), None)"
    by (simp add: New_def assemble_def fifo_block_def memcache_block_def redis_block_def
        Let_def fifo_tier_def fifo_backend_def redis_tier_def redis_backend_def resolved_def
        local_and_redis_def local_only_def no_backends_def)
  have f: "fifo_backend local_and_redis =
      NewFifoCache ''chunks.fifocache'' \<lparr>Size = 1024, Validity = 30\<rparr>"
    by (simp add: fifo_backend_def resolved_def local_and_redis_def local_only_def
        no_backends_def)
  have r: "redis_backend local_and_redis =
      NewRedisCache \<lparr>Endpoint = ''y'', RedisConfig.Expiration = 3600\<rparr> ''chunks.redis'' None"
    by (simp add: redis_backend_def resolved_def local_and_redis_def local_only_def
        no_backends_def)
  have e: "EnableFifoCache local_and_redis \<and> Host (MemcacheClient local_and_redis) = [] \<and>
      Endpoint (Redis local_and_redis) \<noteq> []"
    by (simp add: local_and_redis_def local_only_def no_backends_def)
  have v: "DefaultValidity local_and_redis = 3600 \<and>
      Validity (Fifocache local_and_redis) = 30 \<and>
      RedisConfig.Expiration (Redis local_and_redis) = 0"
    by (simp add: local_and_redis_def local_only_def no_backends_def)
  show ?thesis
    using h n f r e v C3_validity_defaulting [OF h n] by simp
qed

text \<open>
  C8. Every constructed layer is to be named by the configured prefix followed by its
  backend kind. The local block (line 69) and the redis block (lines 93 and 94) hand
  that name to their backends, and the memcached block builds it as \<^verbatim>\<open>cacheName\<close>
  on line 85; but line 83 has already constructed the memcached backend with the bare
  \<^verbatim>\<open>cfg.Prefix\<close>. With only memcached configured under the prefix "chunks." the
  names handed to the constructors are "chunks.memcache" for the Background and the
  Instrumentation layers and "chunks." for the backend, which is none of the names made
  of the prefix and a backend kind.
\<close>

theorem C8_memcached_backend_name:
  "fst (New memcached_only) =
     Some (NewTiered
       [NewBackground ''chunks.memcache'' (Background memcached_only)
          (Instrument ''chunks.memcache''
             (NewMemcached (Memcache memcached_only)
                (NewMemcachedClient (MemcacheClient memcached_only)) ''chunks.''))]) \<and>
   layer_names (NewTiered
       [NewBackground ''chunks.memcache'' (Background memcached_only)
          (Instrument ''chunks.memcache''
             (NewMemcached (Memcache memcached_only)
                (NewMemcachedClient (MemcacheClient memcached_only)) ''chunks.''))]) =
     [''chunks.memcache'', ''chunks.memcache'', ''chunks.''] \<and>
   Prefix memcached_only = ''chunks.'' \<and>
   ''chunks.'' \<notin> {Prefix memcached_only @ ''fifocache'', Prefix memcached_only @ ''memcache'',
                  Prefix memcached_only @ ''redis'', Prefix memcached_only @ ''tiered''}"
  by (simp add: New_def assemble_def fifo_block_def memcache_block_def redis_block_def Let_def
      memcached_only_def no_backends_def)

text \<open>
  C10. Whatever the prefix, the description, the flag set and the configuration before
  the call, and whatever the registrations of the backend configurations and of the flag
  set do: when \<^verbatim>\<open>RegisterFlagsWithPrefix\<close> returns, the field \<^verbatim>\<open>Prefix\<close> of the
  configuration is the prefix argument. The assignment of line 53 is under no condition
  and is the last statement, so the value the field had before is lost; only a panic of
  one of the registrations before it (a flag name defined twice) keeps the function from
  reaching it.
\<close>

theorem C10_prefix_is_flag_prefix:
  "RegisterFlagsWithPrefix X prefix description (cfg, f) = Inr (cfg', f') \<Longrightarrow>
     Prefix cfg' = prefix"
  by (auto simp: RegisterFlagsWithPrefix_def and_then_def Let_def
      split: sum.splits prod.splits)

theorem C10_prefix_is_flag_prefix_witness:
  "Prefix (local_only\<lparr>Prefix := ''old.''\<rparr>) = ''old.'' \<and>
   RegisterFlagsWithPrefix sample_externals ''store.'' ''Chunks: ''
       (local_only\<lparr>Prefix := ''old.''\<rparr>, []) =
     Inr (no_backends\<lparr>Prefix := ''store.''\<rparr>,
          [''store.cache.enable-fifocache'', ''store.default-validity'']) \<and>
   Prefix (no_backends\<lparr>Prefix := ''store.''\<rparr>) = ''store.''"
proof -
  have r: "RegisterFlagsWithPrefix sample_externals ''store.'' ''Chunks: ''
       (local_only\<lparr>Prefix := ''old.''\<rparr>, []) =
     Inr (no_backends\<lparr>Prefix := ''store.''\<rparr>,
          [''store.cache.enable-fifocache'', ''store.default-validity''])"
    by (simp add: RegisterFlagsWithPrefix_def and_then_def sample_externals_def
        sample_Var_def begins_with_dash_def local_only_def no_backends_def)
  show ?thesis
    using r C10_prefix_is_flag_prefix [OF r] by simp
qed

end
